theory Spec2Isabelle
  imports Complex_Main "HOL-Library.Sublist"
begin

section \<open>Text: Python strings over the code points below 256\<close>

text \<open>
  A Python \<open>str\<close> is a sequence of code points. The embedding takes text over the code
  points U+0000 to U+00FF: a \<^typ>\<open>char\<close> is the code point of that number and a
  \<^typ>\<open>string\<close> is the sequence. On this range \<open>str.lower()\<close> keeps the length and
  stays inside the range, and \<open>str.strip()\<close> removes the characters for which
  \<open>str.isspace()\<close> holds. Text with code points from U+0100 on is outside the embedding.
\<close>

definition isspace :: "char \<Rightarrow> bool" where
  \<comment> \<open>\<open>str.isspace()\<close> of one character: TAB, LF, VT, FF, CR, FS, GS, RS, US, space,
      NEL (U+0085) and the no-break space (U+00A0).\<close>
  "isspace c =
     (let n = (of_char c :: nat)
      in (9 \<le> n \<and> n \<le> 13) \<or> (28 \<le> n \<and> n \<le> 32) \<or> n = 133 \<or> n = 160)"

definition lower_char :: "char \<Rightarrow> char" where
  \<comment> \<open>\<open>A\<close> to \<open>Z\<close>, and the upper-case letters of Latin-1 (U+00C0 to U+00DE without the
      multiplication sign U+00D7), move up by 32; every other character stays.\<close>
  "lower_char c =
     (let n = (of_char c :: nat)
      in if (65 \<le> n \<and> n \<le> 90) \<or> (192 \<le> n \<and> n \<le> 222 \<and> n \<noteq> 215)
         then char_of (n + 32) else c)"

definition upper_char :: "char \<Rightarrow> char" where
  \<comment> \<open>\<open>str.upper()\<close> on ASCII: \<open>a\<close> to \<open>z\<close> move down by 32. The source applies
      \<open>upper()\<close> only to the keys of its keyword table, which are ASCII.\<close>
  "upper_char c =
     (let n = (of_char c :: nat)
      in if 97 \<le> n \<and> n \<le> 122 then char_of (n - 32) else c)"

definition lower :: "string \<Rightarrow> string" where
  "lower s = map lower_char s"

definition upper :: "string \<Rightarrow> string" where
  "upper s = map upper_char s"

definition strip :: "string \<Rightarrow> string" where
  \<comment> \<open>\<open>str.strip()\<close> without argument: leading and trailing whitespace removed.\<close>
  "strip s = rev (dropWhile isspace (rev (dropWhile isspace s)))"

fun py_in :: "string \<Rightarrow> string \<Rightarrow> bool" where
  \<comment> \<open>\<open>keyword in text\<close> on strings: \<open>keyword\<close> occurs in \<open>text\<close> as a contiguous run.\<close>
  "py_in keyword [] = (keyword = [])"
| "py_in keyword (c # cs) = (prefix keyword (c # cs) \<or> py_in keyword cs)"


section \<open>core/nlp\_engine.py\<close>

datatype CommandType = GREETING | SYSTEM_INFO | FILE_OPERATION | CONTROL | QUERY | UNKNOWN

definition CommandType_getitem :: "string \<Rightarrow> CommandType option" where
  \<comment> \<open>\<open>CommandType[name]\<close>: the member of that name; \<open>None\<close> stands for the KeyError.\<close>
  "CommandType_getitem name =
     (if name = ''GREETING'' then Some GREETING
      else if name = ''SYSTEM_INFO'' then Some SYSTEM_INFO
      else if name = ''FILE_OPERATION'' then Some FILE_OPERATION
      else if name = ''CONTROL'' then Some CONTROL
      else if name = ''QUERY'' then Some QUERY
      else if name = ''UNKNOWN'' then Some UNKNOWN
      else None)"

definition commands :: "(string \<times> string list) list" where
  \<comment> \<open>\<open>self.commands\<close>: a dict literal, iterated in the order it is written.\<close>
  "commands =
     [(''greeting'', [''hello'', ''hi'', ''hey jarvis'', ''good morning'', ''good evening'']),
      (''system_info'', [''what is my'', ''tell me'', ''show me'', ''get'', ''system'']),
      (''file_operation'', [''open'', ''read'', ''write'', ''delete'', ''file'']),
      (''control'', [''shutdown'', ''restart'', ''sleep'', ''lock'']),
      (''query'', [''how'', ''what'', ''why'', ''when'', ''where''])]"

definition any_keyword :: "string list \<Rightarrow> string \<Rightarrow> bool" where
  \<comment> \<open>\<open>any(keyword in text for keyword in keywords)\<close>\<close>
  "any_keyword keywords txt = list_ex (\<lambda>keyword. py_in keyword txt) keywords"

definition intent_of_key :: "string \<Rightarrow> CommandType" where
  \<comment> \<open>The body of the \<open>if\<close> in \<open>_detect_intent\<close>: the enum lookup and its
      \<open>except KeyError\<close> branch.\<close>
  "intent_of_key intent_type =
     (case CommandType_getitem (upper intent_type) of
        Some c \<Rightarrow> c
      | None \<Rightarrow>
          if intent_type = ''file'' \<or> intent_type = ''file_operation''
          then FILE_OPERATION else UNKNOWN)"

fun detect_items :: "(string \<times> string list) list \<Rightarrow> string \<Rightarrow> CommandType" where
  \<comment> \<open>The \<open>for intent_type, keywords in ...items()\<close> loop of \<open>_detect_intent\<close>.\<close>
  "detect_items [] txt = UNKNOWN"
| "detect_items ((intent_type, keywords) # rest) txt =
     (if any_keyword keywords txt then intent_of_key intent_type
      else detect_items rest txt)"

definition detect_intent :: "string \<Rightarrow> CommandType" where
  "detect_intent txt = detect_items commands txt"

definition extract_entities :: "string \<Rightarrow> string list" where
  \<comment> \<open>\<open>words = text.split()\<close> is computed and not used; the list returned is empty.\<close>
  "extract_entities txt = []"

definition calculate_confidence :: "string \<Rightarrow> CommandType \<Rightarrow> real" where
  \<comment> \<open>The two float literals of the source, as the decimal numbers they are written as.\<close>
  "calculate_confidence txt i = (if i = UNKNOWN then 0.3 else 0.85)"

record analysis =
  analysis_text :: string
  intent :: CommandType
  entities :: "string list"
  confidence :: real

definition analyze :: "string \<Rightarrow> analysis" where
  "analyze user_text =
     (let txt = strip (lower user_text);
          i = detect_intent txt;
          es = extract_entities txt
      in \<lparr>analysis_text = txt, intent = i, entities = es,
          confidence = calculate_confidence txt i\<rparr>)"


section \<open>core/jarvis.py: the handlers\<close>

text \<open>
  \<open>get_system_info\<close> belongs to \<open>core/system_access.py\<close>, which is not among the sources;
  its result is a parameter of the handler. The handler only interpolates fields of the
  result into f-strings, and \<open>{v}\<close> inserts \<open>format(v, "")\<close>, which is \<open>str(v)\<close> for a
  number or a string. The record holds, for each field the handler reads, this rendering:
  \<open>cpu_percent\<close> is \<open>''42.0''\<close> for the float 42.0.
\<close>

record system_info =
  cpu_percent :: string
  memory_available :: string
  disk_free :: string
  platform :: string
  cpu_count :: string

definition handle_greeting :: string where
  "handle_greeting = ''Good to see you. How can I assist you today?''"

definition handle_system_info :: "system_info \<Rightarrow> string \<Rightarrow> string" where
  "handle_system_info si user_input =
     (if py_in ''cpu'' user_input \<or> py_in ''processor'' user_input
      then ''Your CPU usage is at '' @ cpu_percent si @ '' percent''
      else if py_in ''memory'' user_input \<or> py_in ''ram'' user_input
      then ''Memory available: '' @ memory_available si
      else if py_in ''disk'' user_input
      then ''Disk space free: '' @ disk_free si
      else ''System is running on '' @ platform si @ '' with '' @ cpu_count si @
           '' processors'')"

definition handle_file_operation :: "string \<Rightarrow> string" where
  "handle_file_operation user_input = ''File operation feature coming soon''"

definition handle_control :: "string \<Rightarrow> string" where
  "handle_control user_input =
     (if py_in ''shutdown'' user_input then ''Shutdown command received''
      else if py_in ''restart'' user_input then ''Restart command received''
      else ''Control command not recognized'')"

definition handle_query :: "string \<Rightarrow> string" where
  "handle_query user_input = ''I will search for that information for you''"

definition process_command :: "system_info \<Rightarrow> string \<Rightarrow> string" where
  \<comment> \<open>The handlers get the text as it was entered, not the normalised text of the
      analysis.\<close>
  "process_command si user_input =
     (let i = intent (analyze user_input)
      in if i = GREETING then handle_greeting
         else if i = SYSTEM_INFO then handle_system_info si user_input
         else if i = FILE_OPERATION then handle_file_operation user_input
         else if i = CONTROL then handle_control user_input
         else if i = QUERY then handle_query user_input
         else ''I did not understand that. Could you please repeat?'')"


section \<open>core/jarvis.py: the interaction log, stopping, and the loop of text mode\<close>

text \<open>
  What the program does to the outside is kept as a list of events, oldest first: the calls
  of \<open>voice_engine.speak\<close>, the lines of the logger, and the prompt that \<open>input\<close> writes.
  The file \<open>conversations.json\<close> is part of the state: it is missing, or it holds a JSON
  list (of the records written so far), or it holds something from which \<open>json.load\<close>
  followed by \<open>append\<close> raises (text that is not JSON, a JSON value that is not a list, a
  file cut short by a failed write).
\<close>

record interaction =
  timestamp :: string
  user_input :: string
  response :: string

datatype log_file = Missing | Holds "interaction list" | Unloadable

datatype io_fault = No_fault | Read_fault | Open_write_fault | Dump_fault
  \<comment> \<open>What the file system does during one call of \<open>save_interaction\<close>: nothing wrong;
      opening or reading the existing file raises; \<open>open(log_file, 'w')\<close> raises and the
      file is as before; \<open>json.dump\<close> raises after \<open>open\<close> has truncated the file.\<close>

datatype save_exception = Read_raised | Load_raised | Open_write_raised | Dump_raised

datatype event =
    Speak string
  | Prompt string
  | Log_info string
  | Log_error save_exception

record jarvis =
  name :: string
  running :: bool
  log_file :: log_file
  events :: "event list"

definition speak :: "string \<Rightarrow> jarvis \<Rightarrow> jarvis" where
  \<comment> \<open>\<open>voice_engine.speak\<close> catches what the speech engine raises and returns.\<close>
  "speak msg s = s\<lparr>events := events s @ [Speak msg]\<rparr>"

definition logger_info :: "string \<Rightarrow> jarvis \<Rightarrow> jarvis" where
  "logger_info msg s = s\<lparr>events := events s @ [Log_info msg]\<rparr>"

definition logger_error :: "save_exception \<Rightarrow> jarvis \<Rightarrow> jarvis" where
  "logger_error e s = s\<lparr>events := events s @ [Log_error e]\<rparr>"

definition load_conversations :: "io_fault \<Rightarrow> log_file \<Rightarrow> save_exception + interaction list" where
  \<comment> \<open>\<open>conversations = []\<close>, replaced by \<open>json.load(f)\<close> when the file exists.\<close>
  "load_conversations f lf =
     (case lf of
        Missing \<Rightarrow> Inr []
      | Holds xs \<Rightarrow> if f = Read_fault then Inl Read_raised else Inr xs
      | Unloadable \<Rightarrow> if f = Read_fault then Inl Read_raised else Inl Load_raised)"

definition save_try :: "string \<Rightarrow> io_fault \<Rightarrow> string \<Rightarrow> string \<Rightarrow> log_file
    \<Rightarrow> log_file \<times> save_exception option" where
  \<comment> \<open>The \<open>try\<close> block of \<open>save_interaction\<close>: the file afterwards, and the exception
      that left the block, if one did. The first argument is
      \<open>datetime.now().isoformat()\<close>.\<close>
  "save_try stamp f inp resp lf =
     (let interaction = \<lparr>timestamp = stamp, user_input = inp, response = resp\<rparr>
      in case load_conversations f lf of
           Inl e \<Rightarrow> (lf, Some e)
         | Inr conversations \<Rightarrow>
             if f = Open_write_fault then (lf, Some Open_write_raised)
             else if f = Dump_fault then (Unloadable, Some Dump_raised)
             else (Holds (conversations @ [interaction]), None))"

definition save_interaction :: "string \<Rightarrow> io_fault \<Rightarrow> string \<Rightarrow> string \<Rightarrow> jarvis \<Rightarrow> jarvis" where
  \<comment> \<open>\<open>except Exception as e: self.logger.error(...)\<close>\<close>
  "save_interaction stamp f inp resp s =
     (case save_try stamp f inp resp (log_file s) of
        (lf, None) \<Rightarrow> s\<lparr>log_file := lf\<rparr>
      | (lf, Some e) \<Rightarrow> logger_error e (s\<lparr>log_file := lf\<rparr>))"

definition stop :: "jarvis \<Rightarrow> jarvis" where
  "stop s =
     logger_info (name s @ '' stopped'')
       (speak ''Powering down. Goodbye sir.'' (s\<lparr>running := False\<rparr>))"

datatype stdin_result = Line string | EOFError | KeyboardInterrupt

record turn =
  stdin :: stdin_result
  probe :: system_info
  now :: string
  fault :: io_fault

text \<open>
  A \<open>turn\<close> is what the outside gives to one pass of the loop: what \<open>input("You: ")\<close>
  returns or raises, what \<open>get_system_info()\<close> would return, the clock, and the behaviour of
  the file system. Standard input is the list of turns and ends after the last one, where
  \<open>input\<close> raises EOFError.
\<close>

definition prompt :: "jarvis \<Rightarrow> jarvis" where
  "prompt s = s\<lparr>events := events s @ [Prompt ''You: '']\<rparr>"

definition exit_words :: "string list" where
  "exit_words = [''exit'', ''quit'', ''shutdown'', ''power down'']"

fun text_loop :: "jarvis \<Rightarrow> turn list \<Rightarrow> jarvis" where
  \<comment> \<open>The \<open>while self.running\<close> loop of text mode in \<open>main_loop\<close>.\<close>
  "text_loop s [] = (if running s then stop (prompt s) else s)"
| "text_loop s (t # ts) =
     (if \<not> running s then s
      else case stdin t of
             EOFError \<Rightarrow> stop (prompt s)
           | KeyboardInterrupt \<Rightarrow> stop (prompt s)
           | Line inp \<Rightarrow>
               if inp = [] then text_loop (prompt s) ts
               else if lower (strip inp) \<in> set exit_words then stop (prompt s)
               else
                 let s1 = logger_info (''User (text): '' @ inp) (prompt s);
                     resp = process_command (probe t) inp;
                     s2 = speak resp s1;
                     s3 = save_interaction (now t) (fault t) inp resp s2
                 in text_loop s3 ts)"

fun save_all :: "(string \<times> io_fault \<times> string \<times> string) list \<Rightarrow> jarvis \<Rightarrow> jarvis" where
  \<comment> \<open>A sequence of calls of \<open>save_interaction\<close>, each with its clock value, the behaviour
      of the file system during it, and its two arguments.\<close>
  "save_all [] s = s"
| "save_all ((stamp, f, inp, resp) # calls) s =
     save_all calls (save_interaction stamp f inp resp s)"


section \<open>Sample values for the instances\<close>

definition sample_info :: system_info where
  "sample_info =
     \<lparr>cpu_percent = ''42.0'', memory_available = ''8.0 GB'', disk_free = ''100.0 GB'',
      platform = ''Linux'', cpu_count = ''8''\<rparr>"

definition sample_jarvis :: "log_file \<Rightarrow> jarvis" where
  "sample_jarvis lf = \<lparr>name = ''JARVIS'', running = True, log_file = lf, events = []\<rparr>"

definition sample_turn :: "stdin_result \<Rightarrow> io_fault \<Rightarrow> turn" where
  "sample_turn r f =
     \<lparr>stdin = r, probe = sample_info, now = ''2024-05-01T10:00:00'', fault = f\<rparr>"


section \<open>Facts about the text operations and the keyword table\<close>

lemma py_in_iff: "py_in keyword t \<longleftrightarrow> (\<exists>ps ss. t = ps @ keyword @ ss)"
proof -
  have "py_in keyword t \<longleftrightarrow> sublist keyword t"
    by (induction t) (auto simp: sublist_Cons_right)
  then show ?thesis by (simp add: sublist_def)
qed

lemma any_keyword_iff: "any_keyword kws t \<longleftrightarrow> (\<exists>kw\<in>set kws. py_in kw t)"
  by (simp add: any_keyword_def list_ex_iff)

lemma detect_items_first:
  "\<forall>(k', kws') \<in> set before. \<not> any_keyword kws' t \<Longrightarrow> any_keyword kws t \<Longrightarrow>
   detect_items (before @ (k, kws) # after) t = intent_of_key k"
  by (induction before) auto

lemma detect_items_none:
  "\<forall>(k', kws') \<in> set items. \<not> any_keyword kws' t \<Longrightarrow> detect_items items t = UNKNOWN"
  by (induction items) auto

lemma intent_of_key_commands:
  "intent_of_key ''greeting'' = GREETING"
  "intent_of_key ''system_info'' = SYSTEM_INFO"
  "intent_of_key ''file_operation'' = FILE_OPERATION"
  "intent_of_key ''control'' = CONTROL"
  "intent_of_key ''query'' = QUERY"
  by code_simp+

lemma getitem_upper_commands:
  "CommandType_getitem (upper ''greeting'') = Some GREETING"
  "CommandType_getitem (upper ''system_info'') = Some SYSTEM_INFO"
  "CommandType_getitem (upper ''file_operation'') = Some FILE_OPERATION"
  "CommandType_getitem (upper ''control'') = Some CONTROL"
  "CommandType_getitem (upper ''query'') = Some QUERY"
  by code_simp+

lemma keys_commands:
  "map fst commands =
     [''greeting'', ''system_info'', ''file_operation'', ''control'', ''query'']"
  by (simp add: commands_def)

lemma distinct_keys: "distinct (map fst commands)"
  by (simp add: commands_def)

lemma key_lookup:
  assumes "(k, kws) \<in> set commands"
  shows "CommandType_getitem (upper k) = Some (intent_of_key k) \<and> intent_of_key k \<noteq> UNKNOWN"
proof -
  from assms have "k \<in> set (map fst commands)" by force
  then consider "k = ''greeting''" | "k = ''system_info''" | "k = ''file_operation''"
    | "k = ''control''" | "k = ''query''"
    unfolding keys_commands by auto
  then show ?thesis
    by cases (simp_all add: intent_of_key_commands getitem_upper_commands)
qed

lemma entry_cases:
  assumes "(k, kws) \<in> set commands"
  shows "(k, kws) =
           (''greeting'', [''hello'', ''hi'', ''hey jarvis'', ''good morning'', ''good evening'']) \<or>
         (k, kws) =
           (''system_info'', [''what is my'', ''tell me'', ''show me'', ''get'', ''system'']) \<or>
         (k, kws) = (''file_operation'', [''open'', ''read'', ''write'', ''delete'', ''file'']) \<or>
         (k, kws) = (''control'', [''shutdown'', ''restart'', ''sleep'', ''lock'']) \<or>
         (k, kws) = (''query'', [''how'', ''what'', ''why'', ''when'', ''where''])"
  using assms unfolding commands_def
  by (simp only: set_simps insert_iff empty_iff simp_thms)

lemma entry_member:
  assumes "(k, kws) \<in> set commands"
  shows "((k = ''greeting'' \<and>
            kws = [''hello'', ''hi'', ''hey jarvis'', ''good morning'', ''good evening''] \<and>
            intent_of_key k = GREETING) \<or>
          (k = ''system_info'' \<and>
            kws = [''what is my'', ''tell me'', ''show me'', ''get'', ''system''] \<and>
            intent_of_key k = SYSTEM_INFO) \<or>
          (k = ''file_operation'' \<and>
            kws = [''open'', ''read'', ''write'', ''delete'', ''file''] \<and>
            intent_of_key k = FILE_OPERATION) \<or>
          (k = ''control'' \<and>
            kws = [''shutdown'', ''restart'', ''sleep'', ''lock''] \<and>
            intent_of_key k = CONTROL) \<or>
          (k = ''query'' \<and>
            kws = [''how'', ''what'', ''why'', ''when'', ''where''] \<and>
            intent_of_key k = QUERY))"
  using entry_cases [OF assms]
proof (elim disjE)
  assume "(k, kws) =
    (''greeting'', [''hello'', ''hi'', ''hey jarvis'', ''good morning'', ''good evening''])"
  then have "k = ''greeting'' \<and>
      kws = [''hello'', ''hi'', ''hey jarvis'', ''good morning'', ''good evening''] \<and>
      intent_of_key k = GREETING"
    by (simp add: intent_of_key_commands)
  then show ?thesis by (rule disjI1)
next
  assume "(k, kws) =
    (''system_info'', [''what is my'', ''tell me'', ''show me'', ''get'', ''system''])"
  then have "k = ''system_info'' \<and>
      kws = [''what is my'', ''tell me'', ''show me'', ''get'', ''system''] \<and>
      intent_of_key k = SYSTEM_INFO"
    by (simp add: intent_of_key_commands)
  then show ?thesis by (intro disjI2 disjI1)
next
  assume "(k, kws) = (''file_operation'', [''open'', ''read'', ''write'', ''delete'', ''file''])"
  then have "k = ''file_operation'' \<and>
      kws = [''open'', ''read'', ''write'', ''delete'', ''file''] \<and>
      intent_of_key k = FILE_OPERATION"
    by (simp add: intent_of_key_commands)
  then show ?thesis by (intro disjI2 disjI1)
next
  assume "(k, kws) = (''control'', [''shutdown'', ''restart'', ''sleep'', ''lock''])"
  then have "k = ''control'' \<and>
      kws = [''shutdown'', ''restart'', ''sleep'', ''lock''] \<and>
      intent_of_key k = CONTROL"
    by (simp add: intent_of_key_commands)
  then show ?thesis by (intro disjI2 disjI1)
next
  assume "(k, kws) = (''query'', [''how'', ''what'', ''why'', ''when'', ''where''])"
  then have "k = ''query'' \<and>
      kws = [''how'', ''what'', ''why'', ''when'', ''where''] \<and>
      intent_of_key k = QUERY"
    by (simp add: intent_of_key_commands)
  then show ?thesis by (intro disjI2)
qed

lemma analyze_fields:
  "analysis_text (analyze u) = strip (lower u)"
  "intent (analyze u) = detect_intent (strip (lower u))"
  "entities (analyze u) = []"
  "confidence (analyze u) = (if detect_intent (strip (lower u)) = UNKNOWN then 0.3 else 0.85)"
  by (simp_all add: analyze_def Let_def extract_entities_def calculate_confidence_def)

lemma analyze_first_match:
  assumes "commands = before @ (k, kws) # after"
      and "\<forall>(k', kws') \<in> set before. \<forall>kw\<in>set kws'. \<not> py_in kw (strip (lower u))"
      and "\<exists>kw\<in>set kws. py_in kw (strip (lower u))"
  shows "intent (analyze u) = intent_of_key k"
proof -
  have "\<forall>(k', kws') \<in> set before. \<not> any_keyword kws' (strip (lower u))"
    using assms(2) by (fastforce simp: any_keyword_iff)
  moreover have "any_keyword kws (strip (lower u))"
    using assms(3) by (simp add: any_keyword_iff)
  ultimately have "detect_items (before @ (k, kws) # after) (strip (lower u)) = intent_of_key k"
    by (rule detect_items_first)
  then show ?thesis
    by (simp add: analyze_fields detect_intent_def assms(1))
qed


lemma process_command_cases:
  "intent (analyze u) = SYSTEM_INFO \<Longrightarrow> process_command si u = handle_system_info si u"
  "intent (analyze u) = CONTROL \<Longrightarrow> process_command si u = handle_control u"
  "intent (analyze u) = UNKNOWN \<Longrightarrow>
     process_command si u = ''I did not understand that. Could you please repeat?''"
  by (simp_all add: process_command_def Let_def)

lemma text_loop_step:
  assumes "running s" and "stdin t = Line inp" and "inp \<noteq> []"
      and "lower (strip inp) \<notin> set exit_words"
  shows "text_loop s (t # ts) =
           text_loop
             (save_interaction (now t) (fault t) inp (process_command (probe t) inp)
                (s\<lparr>events := events s @
                     [Prompt ''You: '', Log_info (''User (text): '' @ inp),
                      Speak (process_command (probe t) inp)]\<rparr>))
             ts"
  using assms by (simp add: Let_def prompt_def logger_info_def speak_def)

lemma text_loop_stopped: "\<not> running s \<Longrightarrow> text_loop s ts = s"
  by (cases ts) simp_all

lemma stop_prompt:
  "stop (prompt s) =
     s\<lparr>running := False,
        events := events s @
          [Prompt ''You: '', Speak ''Powering down. Goodbye sir.'',
           Log_info (name s @ '' stopped'')]\<rparr>"
  by (simp add: stop_def prompt_def speak_def logger_info_def)

lemma lower_strip_Nil: "lower (strip []) = []"
  by (simp add: lower_def strip_def)

lemma Nil_not_exit: "[] \<notin> set exit_words"
  by (simp add: exit_words_def)

lemma isspace_lower_char: "isspace c \<Longrightarrow> lower_char c = c"
  by (auto simp: isspace_def lower_char_def Let_def)

lemma strip_all_space: "\<forall>c\<in>set inp. isspace c \<Longrightarrow> strip inp = []"
  by (auto simp: strip_def dest: set_dropWhileD)

lemma lower_all_space: "\<forall>c\<in>set inp. isspace c \<Longrightarrow> lower inp = inp"
  by (simp add: lower_def map_idI isspace_lower_char)

lemma detect_intent_Nil: "detect_intent [] = UNKNOWN"
  by code_simp

lemma save_interaction_cases:
  "snd (save_try stamp f inp resp (log_file s)) = None \<Longrightarrow>
     save_interaction stamp f inp resp s =
       s\<lparr>log_file := fst (save_try stamp f inp resp (log_file s))\<rparr>"
  "snd (save_try stamp f inp resp (log_file s)) = Some e \<Longrightarrow>
     save_interaction stamp f inp resp s =
       s\<lparr>log_file := fst (save_try stamp f inp resp (log_file s)),
          events := events s @ [Log_error e]\<rparr>"
  by (auto simp: save_interaction_def logger_error_def split: prod.splits option.splits)

lemma save_try_raise:
  "snd (save_try stamp f inp resp lf) = Some e \<Longrightarrow>
     fst (save_try stamp f inp resp lf) = lf \<or> fst (save_try stamp f inp resp lf) = Unloadable"
  by (auto simp: save_try_def Let_def split: sum.splits if_splits)

lemma save_try_ok:
  "load_conversations No_fault lf = Inr old \<Longrightarrow>
   save_try stamp No_fault inp resp lf =
     (Holds (old @ [\<lparr>timestamp = stamp, user_input = inp, response = resp\<rparr>]), None)"
  by (simp add: save_try_def Let_def)

lemma load_Holds: "load_conversations No_fault (Holds xs) = Inr xs"
  by (simp add: load_conversations_def)

lemma save_all_ok:
  assumes "load_conversations No_fault (log_file s) = Inr old"
      and "\<forall>(stamp, f, inp, resp) \<in> set calls. f = No_fault"
  shows "save_all calls s =
           (if calls = [] then s
            else s\<lparr>log_file := Holds (old @ map (\<lambda>(stamp, f, inp, resp).
                   \<lparr>timestamp = stamp, user_input = inp, response = resp\<rparr>) calls)\<rparr>)"
  using assms
proof (induction calls arbitrary: s old)
  case Nil
  then show ?case by simp
next
  case (Cons c calls)
  obtain stamp f inp resp where c: "c = (stamp, f, inp, resp)" by (cases c) auto
  with Cons.prems have f: "f = No_fault" by simp
  let ?r = "\<lparr>timestamp = stamp, user_input = inp, response = resp\<rparr>"
  let ?s = "s\<lparr>log_file := Holds (old @ [?r])\<rparr>"
  have step: "save_interaction stamp f inp resp s = ?s"
    using Cons.prems(1) by (simp add: f save_interaction_def save_try_ok)
  have "load_conversations No_fault (log_file ?s) = Inr (old @ [?r])"
    by (simp add: load_Holds)
  moreover have "\<forall>(stamp, f, inp, resp) \<in> set calls. f = No_fault"
    using Cons.prems(2) by auto
  ultimately have "save_all calls ?s =
      (if calls = [] then ?s
       else ?s\<lparr>log_file := Holds ((old @ [?r]) @ map (\<lambda>(stamp, f, inp, resp).
                   \<lparr>timestamp = stamp, user_input = inp, response = resp\<rparr>) calls)\<rparr>)"
    by (rule Cons.IH)
  then show ?case by (simp add: c step)
qed


section \<open>Classification\<close>

text \<open>
  C1. The call \<open>analyze("what is my system status")\<close> gives the intent SYSTEM\_INFO and not
  QUERY, although the text contains the QUERY keyword \<open>what\<close>: the categories are tried in
  the order greeting, system\_info, file\_operation, control, query in which the table is
  written, and the first category with a keyword that occurs in the normalised text
  (lower-cased, then stripped) is the intent, whatever the later categories contain: the
  entry of the table that is the first with such a keyword is one of the five rows below,
  and the intent returned is the enum member of that row (GREETING for greeting,
  SYSTEM\_INFO for system\_info, FILE\_OPERATION for file\_operation, CONTROL for control,
  QUERY for query).
\<close>

theorem classify_precedence:
  "intent (analyze ''what is my system status'') = SYSTEM_INFO \<and>
   intent (analyze ''what is my system status'') \<noteq> QUERY \<and>
   py_in ''what'' (strip (lower ''what is my system status'')) \<and>
   map fst commands =
     [''greeting'', ''system_info'', ''file_operation'', ''control'', ''query''] \<and>
   (\<forall>u before k kws after.
      commands = before @ (k, kws) # after \<and>
      (\<forall>(k', kws') \<in> set before. \<forall>kw\<in>set kws'. \<not> py_in kw (strip (lower u))) \<and>
      (\<exists>kw\<in>set kws. py_in kw (strip (lower u)))
      \<longrightarrow>
       ((k = ''greeting'' \<and>
           kws = [''hello'', ''hi'', ''hey jarvis'', ''good morning'', ''good evening''] \<and>
           intent (analyze u) = GREETING) \<or>
         (k = ''system_info'' \<and>
           kws = [''what is my'', ''tell me'', ''show me'', ''get'', ''system''] \<and>
           intent (analyze u) = SYSTEM_INFO) \<or>
         (k = ''file_operation'' \<and>
           kws = [''open'', ''read'', ''write'', ''delete'', ''file''] \<and>
           intent (analyze u) = FILE_OPERATION) \<or>
         (k = ''control'' \<and>
           kws = [''shutdown'', ''restart'', ''sleep'', ''lock''] \<and>
           intent (analyze u) = CONTROL) \<or>
         (k = ''query'' \<and>
           kws = [''how'', ''what'', ''why'', ''when'', ''where''] \<and>
           intent (analyze u) = QUERY)) \<and>
       CommandType_getitem (upper k) = Some (intent (analyze u)))"
proof -
  have a: "intent (analyze ''what is my system status'') = SYSTEM_INFO"
    by code_simp
  have b: "py_in ''what'' (strip (lower ''what is my system status''))"
    by code_simp
  have c: "((k = ''greeting'' \<and>
           kws = [''hello'', ''hi'', ''hey jarvis'', ''good morning'', ''good evening''] \<and>
           intent (analyze u) = GREETING) \<or>
         (k = ''system_info'' \<and>
           kws = [''what is my'', ''tell me'', ''show me'', ''get'', ''system''] \<and>
           intent (analyze u) = SYSTEM_INFO) \<or>
         (k = ''file_operation'' \<and>
           kws = [''open'', ''read'', ''write'', ''delete'', ''file''] \<and>
           intent (analyze u) = FILE_OPERATION) \<or>
         (k = ''control'' \<and>
           kws = [''shutdown'', ''restart'', ''sleep'', ''lock''] \<and>
           intent (analyze u) = CONTROL) \<or>
         (k = ''query'' \<and>
           kws = [''how'', ''what'', ''why'', ''when'', ''where''] \<and>
           intent (analyze u) = QUERY)) \<and>
       CommandType_getitem (upper k) = Some (intent (analyze u))"
    if "commands = before @ (k, kws) # after"
      and "\<forall>(k', kws') \<in> set before. \<forall>kw\<in>set kws'. \<not> py_in kw (strip (lower u))"
      and "\<exists>kw\<in>set kws. py_in kw (strip (lower u))"
    for u before k kws after
  proof -
    have mem: "(k, kws) \<in> set commands" unfolding that(1) by simp
    have m: "intent (analyze u) = intent_of_key k"
      by (rule analyze_first_match [OF that])
    have g: "CommandType_getitem (upper k) = Some (intent (analyze u))"
      unfolding m using key_lookup [OF mem] by (rule conjunct1)
    have d: "((k = ''greeting'' \<and>
           kws = [''hello'', ''hi'', ''hey jarvis'', ''good morning'', ''good evening''] \<and>
           intent (analyze u) = GREETING) \<or>
         (k = ''system_info'' \<and>
           kws = [''what is my'', ''tell me'', ''show me'', ''get'', ''system''] \<and>
           intent (analyze u) = SYSTEM_INFO) \<or>
         (k = ''file_operation'' \<and>
           kws = [''open'', ''read'', ''write'', ''delete'', ''file''] \<and>
           intent (analyze u) = FILE_OPERATION) \<or>
         (k = ''control'' \<and>
           kws = [''shutdown'', ''restart'', ''sleep'', ''lock''] \<and>
           intent (analyze u) = CONTROL) \<or>
         (k = ''query'' \<and>
           kws = [''how'', ''what'', ''why'', ''when'', ''where''] \<and>
           intent (analyze u) = QUERY))"
      unfolding m by (rule entry_member [OF mem])
    from d g show ?thesis by (rule conjI)
  qed
  show ?thesis
  proof (intro conjI allI impI)
    show "intent (analyze ''what is my system status'') = SYSTEM_INFO" by (rule a)
    show "intent (analyze ''what is my system status'') \<noteq> QUERY" by (simp add: a)
    show "py_in ''what'' (strip (lower ''what is my system status''))" by (rule b)
    show "map fst commands =
      [''greeting'', ''system_info'', ''file_operation'', ''control'', ''query'']"
      by (rule keys_commands)
  next
    fix u before k kws after
    assume h: "commands = before @ (k, kws) # after \<and>
      (\<forall>(k', kws') \<in> set before. \<forall>kw\<in>set kws'. \<not> py_in kw (strip (lower u))) \<and>
      (\<exists>kw\<in>set kws. py_in kw (strip (lower u)))"
    have r: "((k = ''greeting'' \<and>
           kws = [''hello'', ''hi'', ''hey jarvis'', ''good morning'', ''good evening''] \<and>
           intent (analyze u) = GREETING) \<or>
         (k = ''system_info'' \<and>
           kws = [''what is my'', ''tell me'', ''show me'', ''get'', ''system''] \<and>
           intent (analyze u) = SYSTEM_INFO) \<or>
         (k = ''file_operation'' \<and>
           kws = [''open'', ''read'', ''write'', ''delete'', ''file''] \<and>
           intent (analyze u) = FILE_OPERATION) \<or>
         (k = ''control'' \<and>
           kws = [''shutdown'', ''restart'', ''sleep'', ''lock''] \<and>
           intent (analyze u) = CONTROL) \<or>
         (k = ''query'' \<and>
           kws = [''how'', ''what'', ''why'', ''when'', ''where''] \<and>
           intent (analyze u) = QUERY)) \<and>
       CommandType_getitem (upper k) = Some (intent (analyze u))"
      by (rule c [of before k kws after u]) (use h in blast)+
    show "((k = ''greeting'' \<and>
           kws = [''hello'', ''hi'', ''hey jarvis'', ''good morning'', ''good evening''] \<and>
           intent (analyze u) = GREETING) \<or>
         (k = ''system_info'' \<and>
           kws = [''what is my'', ''tell me'', ''show me'', ''get'', ''system''] \<and>
           intent (analyze u) = SYSTEM_INFO) \<or>
         (k = ''file_operation'' \<and>
           kws = [''open'', ''read'', ''write'', ''delete'', ''file''] \<and>
           intent (analyze u) = FILE_OPERATION) \<or>
         (k = ''control'' \<and>
           kws = [''shutdown'', ''restart'', ''sleep'', ''lock''] \<and>
           intent (analyze u) = CONTROL) \<or>
         (k = ''query'' \<and>
           kws = [''how'', ''what'', ''why'', ''when'', ''where''] \<and>
           intent (analyze u) = QUERY))"
      using r by (rule conjunct1)
    show "CommandType_getitem (upper k) = Some (intent (analyze u))"
      using r by (rule conjunct2)
  qed
qed

theorem classify_precedence_witness:
  "commands =
     [(''greeting'', [''hello'', ''hi'', ''hey jarvis'', ''good morning'', ''good evening''])] @
     (''system_info'', [''what is my'', ''tell me'', ''show me'', ''get'', ''system'']) #
     [(''file_operation'', [''open'', ''read'', ''write'', ''delete'', ''file'']),
      (''control'', [''shutdown'', ''restart'', ''sleep'', ''lock'']),
      (''query'', [''how'', ''what'', ''why'', ''when'', ''where''])] \<and>
   \<not> any_keyword [''hello'', ''hi'', ''hey jarvis'', ''good morning'', ''good evening'']
       (strip (lower ''what is my system status'')) \<and>
   (\<exists>kw\<in>set [''what is my'', ''tell me'', ''show me'', ''get'', ''system''].
      py_in kw (strip (lower ''what is my system status''))) \<and>
   intent (analyze ''what is my system status'') = SYSTEM_INFO \<and>
   CommandType_getitem (upper ''system_info'') =
     Some (intent (analyze ''what is my system status''))"
proof -
  have h0: "\<not> any_keyword [''hello'', ''hi'', ''hey jarvis'', ''good morning'', ''good evening'']
       (strip (lower ''what is my system status''))"
    by code_simp
  have h1: "commands =
     [(''greeting'', [''hello'', ''hi'', ''hey jarvis'', ''good morning'', ''good evening''])] @
     (''system_info'', [''what is my'', ''tell me'', ''show me'', ''get'', ''system'']) #
     [(''file_operation'', [''open'', ''read'', ''write'', ''delete'', ''file'']),
      (''control'', [''shutdown'', ''restart'', ''sleep'', ''lock'']),
      (''query'', [''how'', ''what'', ''why'', ''when'', ''where''])]"
    by (simp add: commands_def)
  have h2: "\<forall>(k', kws') \<in>
        set [(''greeting'', [''hello'', ''hi'', ''hey jarvis'', ''good morning'', ''good evening''])].
      \<forall>kw\<in>set kws'. \<not> py_in kw (strip (lower ''what is my system status''))"
    by code_simp
  have h3: "\<exists>kw\<in>set [''what is my'', ''tell me'', ''show me'', ''get'', ''system''].
      py_in kw (strip (lower ''what is my system status''))"
    by code_simp
  have r: "((''system_info'' = ''greeting'' \<and>
           [''what is my'', ''tell me'', ''show me'', ''get'', ''system''] = [''hello'', ''hi'', ''hey jarvis'', ''good morning'', ''good evening''] \<and>
           intent (analyze ''what is my system status'') = GREETING) \<or>
         (''system_info'' = ''system_info'' \<and>
           [''what is my'', ''tell me'', ''show me'', ''get'', ''system''] = [''what is my'', ''tell me'', ''show me'', ''get'', ''system''] \<and>
           intent (analyze ''what is my system status'') = SYSTEM_INFO) \<or>
         (''system_info'' = ''file_operation'' \<and>
           [''what is my'', ''tell me'', ''show me'', ''get'', ''system''] = [''open'', ''read'', ''write'', ''delete'', ''file''] \<and>
           intent (analyze ''what is my system status'') = FILE_OPERATION) \<or>
         (''system_info'' = ''control'' \<and>
           [''what is my'', ''tell me'', ''show me'', ''get'', ''system''] = [''shutdown'', ''restart'', ''sleep'', ''lock''] \<and>
           intent (analyze ''what is my system status'') = CONTROL) \<or>
         (''system_info'' = ''query'' \<and>
           [''what is my'', ''tell me'', ''show me'', ''get'', ''system''] = [''how'', ''what'', ''why'', ''when'', ''where''] \<and>
           intent (analyze ''what is my system status'') = QUERY)) \<and>
       CommandType_getitem (upper ''system_info'') =
         Some (intent (analyze ''what is my system status''))"
    by (rule classify_precedence [THEN conjunct2, THEN conjunct2, THEN conjunct2,
          THEN conjunct2, THEN spec, THEN spec, THEN spec, THEN spec, THEN spec, THEN mp,
          OF conjI [OF h1 conjI [OF h2 h3]]])
  have i: "intent (analyze ''what is my system status'') = SYSTEM_INFO"
    using r [THEN conjunct1] by simp
  from r have g: "CommandType_getitem (upper ''system_info'') =
      Some (intent (analyze ''what is my system status''))"
    by (rule conjunct2)
  show ?thesis
    by (intro conjI) (rule h1 h0 h3 i g)+
qed

text \<open>
  C2. When the normalised text (lower-cased, then stripped) contains a keyword of one
  category of the table and no keyword of any other category, \<open>analyze\<close> returns the enum
  member of that category as the intent, with the confidence 0.85: the category is one of
  the five rows below and the intent is GREETING for greeting, SYSTEM\_INFO for
  system\_info, FILE\_OPERATION for file\_operation, CONTROL for control and QUERY for query;
  it is never UNKNOWN.
\<close>

theorem classify_single_category:
  assumes "(k, kws) \<in> set commands"
      and "\<exists>kw\<in>set kws. py_in kw (strip (lower u))"
      and "\<forall>(k', kws') \<in> set commands.
             k' \<noteq> k \<longrightarrow> (\<forall>kw\<in>set kws'. \<not> py_in kw (strip (lower u)))"
  shows "((k = ''greeting'' \<and>
            kws = [''hello'', ''hi'', ''hey jarvis'', ''good morning'', ''good evening''] \<and>
            intent (analyze u) = GREETING) \<or>
          (k = ''system_info'' \<and>
            kws = [''what is my'', ''tell me'', ''show me'', ''get'', ''system''] \<and>
            intent (analyze u) = SYSTEM_INFO) \<or>
          (k = ''file_operation'' \<and>
            kws = [''open'', ''read'', ''write'', ''delete'', ''file''] \<and>
            intent (analyze u) = FILE_OPERATION) \<or>
          (k = ''control'' \<and>
            kws = [''shutdown'', ''restart'', ''sleep'', ''lock''] \<and>
            intent (analyze u) = CONTROL) \<or>
          (k = ''query'' \<and>
            kws = [''how'', ''what'', ''why'', ''when'', ''where''] \<and>
            intent (analyze u) = QUERY)) \<and>
         CommandType_getitem (upper k) = Some (intent (analyze u)) \<and>
         intent (analyze u) \<noteq> UNKNOWN \<and> confidence (analyze u) = 0.85"
proof -
  from assms(1) obtain before after where split: "commands = before @ (k, kws) # after"
    by (meson split_list)
  have "k \<notin> fst ` set before"
    using distinct_keys unfolding split by auto
  then have "\<forall>(k', kws') \<in> set before. k' \<noteq> k" by force
  moreover have "set before \<subseteq> set commands" unfolding split by auto
  ultimately have
    "\<forall>(k', kws') \<in> set before. \<forall>kw\<in>set kws'. \<not> py_in kw (strip (lower u))"
    using assms(3) by fastforce
  then have m: "intent (analyze u) = intent_of_key k"
    using analyze_first_match [OF split] assms(2) by blast
  have d: "((k = ''greeting'' \<and>
            kws = [''hello'', ''hi'', ''hey jarvis'', ''good morning'', ''good evening''] \<and>
            intent (analyze u) = GREETING) \<or>
          (k = ''system_info'' \<and>
            kws = [''what is my'', ''tell me'', ''show me'', ''get'', ''system''] \<and>
            intent (analyze u) = SYSTEM_INFO) \<or>
          (k = ''file_operation'' \<and>
            kws = [''open'', ''read'', ''write'', ''delete'', ''file''] \<and>
            intent (analyze u) = FILE_OPERATION) \<or>
          (k = ''control'' \<and>
            kws = [''shutdown'', ''restart'', ''sleep'', ''lock''] \<and>
            intent (analyze u) = CONTROL) \<or>
          (k = ''query'' \<and>
            kws = [''how'', ''what'', ''why'', ''when'', ''where''] \<and>
            intent (analyze u) = QUERY))"
    unfolding m by (rule entry_member [OF assms(1)])
  have rest: "CommandType_getitem (upper k) = Some (intent (analyze u)) \<and>
         intent (analyze u) \<noteq> UNKNOWN \<and> confidence (analyze u) = 0.85"
    using m key_lookup [OF assms(1)] by (simp add: analyze_fields)
  from d rest show ?thesis by (rule conjI)
qed

theorem classify_single_category_witness:
  "(''query'', [''how'', ''what'', ''why'', ''when'', ''where'']) \<in> set commands \<and>
   (\<exists>kw\<in>set [''how'', ''what'', ''why'', ''when'', ''where''].
      py_in kw (strip (lower ''  Why not?  ''))) \<and>
   \<not> list_ex (\<lambda>(k', kws'). k' \<noteq> ''query'' \<and> any_keyword kws' (strip (lower ''  Why not?  '')))
       commands \<and>
   intent (analyze ''  Why not?  '') = QUERY \<and>
   CommandType_getitem (upper ''query'') = Some (intent (analyze ''  Why not?  '')) \<and>
   intent (analyze ''  Why not?  '') \<noteq> UNKNOWN \<and>
   confidence (analyze ''  Why not?  '') = 0.85"
proof -
  have h1: "(''query'', [''how'', ''what'', ''why'', ''when'', ''where'']) \<in> set commands"
    by (simp add: commands_def)
  have h2: "\<exists>kw\<in>set [''how'', ''what'', ''why'', ''when'', ''where''].
      py_in kw (strip (lower ''  Why not?  ''))"
    by code_simp
  have h3: "\<forall>(k', kws') \<in> set commands.
      k' \<noteq> ''query'' \<longrightarrow> (\<forall>kw\<in>set kws'. \<not> py_in kw (strip (lower ''  Why not?  '')))"
    by code_simp
  have h4: "\<not> list_ex (\<lambda>(k', kws'). k' \<noteq> ''query'' \<and>
      any_keyword kws' (strip (lower ''  Why not?  ''))) commands"
    by code_simp
  note r = classify_single_category [OF h1 h2 h3]
  have i: "intent (analyze ''  Why not?  '') = QUERY"
    using r [THEN conjunct1] by simp
  note g = r [THEN conjunct2, THEN conjunct1]
  note n = r [THEN conjunct2, THEN conjunct2, THEN conjunct1]
  note c = r [THEN conjunct2, THEN conjunct2, THEN conjunct2]
  show ?thesis
    by (intro conjI) (rule h1 h2 h4 i g n c)+
qed

text \<open>
  C3. \<open>analyze\<close> returns a result for every text: no step of it can raise (the enum lookup,
  the one step that can, has its \<open>except\<close> branch), and the embedding is a total function
  without an error value. On the empty string the normalised text is empty, the intent is
  UNKNOWN and the confidence is 0.3; on every text whose normalised form contains no keyword
  of any category the intent is UNKNOWN and the confidence is 0.3.
\<close>

theorem classify_unknown:
  "analyze [] = \<lparr>analysis_text = [], intent = UNKNOWN, entities = [], confidence = 0.3\<rparr> \<and>
   (\<forall>u. (\<forall>(k, kws) \<in> set commands. \<forall>kw\<in>set kws. \<not> py_in kw (strip (lower u)))
      \<longrightarrow> analyze u =
            \<lparr>analysis_text = strip (lower u), intent = UNKNOWN, entities = [],
             confidence = 0.3\<rparr>)"
proof (intro conjI allI impI)
  show "analyze [] = \<lparr>analysis_text = [], intent = UNKNOWN, entities = [], confidence = 0.3\<rparr>"
    by code_simp
next
  fix u
  assume h: "\<forall>(k, kws) \<in> set commands. \<forall>kw\<in>set kws. \<not> py_in kw (strip (lower u))"
  then have "\<forall>(k, kws) \<in> set commands. \<not> any_keyword kws (strip (lower u))"
    by (fastforce simp: any_keyword_iff)
  then have "detect_intent (strip (lower u)) = UNKNOWN"
    unfolding detect_intent_def by (rule detect_items_none)
  then show "analyze u =
      \<lparr>analysis_text = strip (lower u), intent = UNKNOWN, entities = [], confidence = 0.3\<rparr>"
    by (simp add: analyze_def Let_def extract_entities_def calculate_confidence_def)
qed

theorem classify_unknown_witness:
  "\<not> list_ex (\<lambda>(k, kws). any_keyword kws (strip (lower '' Thanks, bye ''))) commands \<and>
   analyze '' Thanks, bye '' =
     \<lparr>analysis_text = ''thanks, bye'', intent = UNKNOWN, entities = [], confidence = 0.3\<rparr>"
proof -
  have h: "\<forall>(k, kws) \<in> set commands. \<forall>kw\<in>set kws. \<not> py_in kw (strip (lower '' Thanks, bye ''))"
    by code_simp
  have n: "strip (lower '' Thanks, bye '') = ''thanks, bye''"
    by code_simp
  have h': "\<not> list_ex (\<lambda>(k, kws). any_keyword kws (strip (lower '' Thanks, bye ''))) commands"
    by code_simp
  have "analyze '' Thanks, bye '' =
     \<lparr>analysis_text = ''thanks, bye'', intent = UNKNOWN, entities = [], confidence = 0.3\<rparr>"
    using classify_unknown [THEN conjunct2, THEN spec, THEN mp, OF h] n
    by simp
  with h' show ?thesis by blast
qed

text \<open>
  C10. The keyword test is containment of a contiguous run of characters and greeting is the
  first category tried, so every text whose normalised form contains \<open>hi\<close> anywhere is
  classified GREETING, whatever keywords of later categories it contains:
  \<open>open this file\<close> contains \<open>open\<close> and \<open>file\<close> of file\_operation and is GREETING
  (through \<open>this\<close>), \<open>restart the machine\<close> contains \<open>restart\<close> of control and is
  GREETING (through \<open>machine\<close>).
\<close>

theorem hi_is_greeting:
  "(\<forall>u. py_in ''hi'' (strip (lower u)) \<longrightarrow> intent (analyze u) = GREETING) \<and>
   intent (analyze ''open this file'') = GREETING \<and>
   py_in ''open'' (strip (lower ''open this file'')) \<and>
   py_in ''file'' (strip (lower ''open this file'')) \<and>
   intent (analyze ''restart the machine'') = GREETING \<and>
   py_in ''restart'' (strip (lower ''restart the machine''))"
proof (intro conjI allI impI)
  fix u
  assume "py_in ''hi'' (strip (lower u))"
  then show "intent (analyze u) = GREETING"
    by (simp add: analyze_fields detect_intent_def commands_def any_keyword_def
        intent_of_key_commands)
qed code_simp+

theorem hi_is_greeting_witness:
  "py_in ''hi'' (strip (lower ''Is THIS on?'')) \<and> intent (analyze ''Is THIS on?'') = GREETING"
proof -
  have h: "py_in ''hi'' (strip (lower ''Is THIS on?''))"
    by code_simp
  from hi_is_greeting [THEN conjunct1, rule_format, OF h] h show ?thesis
    by simp
qed


section \<open>Dispatch\<close>

text \<open>
  C4. For a text of intent SYSTEM\_INFO, \<open>process_command\<close> tests the text as it was
  entered (not lower-cased, not stripped), case-sensitively and in this order: \<open>cpu\<close> or
  \<open>processor\<close> gives the CPU sentence; otherwise \<open>memory\<close> or \<open>ram\<close> gives the memory
  sentence; otherwise \<open>disk\<close> gives the disk sentence; otherwise the platform and the
  number of processors. For \<open>tell me about cpu\<close> and a snapshot whose CPU percentage is
  rendered \<open>42.0\<close> the response is \<open>Your CPU usage is at 42.0 percent\<close>; for
  \<open>Tell me about CPU\<close>, of intent SYSTEM\_INFO as well, the upper-case \<open>CPU\<close> is not
  found and the response is the platform sentence.
\<close>

theorem system_info_dispatch:
  "(\<forall>si u. intent (analyze u) = SYSTEM_INFO \<longrightarrow>
      ((py_in ''cpu'' u \<or> py_in ''processor'' u) \<longrightarrow>
         process_command si u = ''Your CPU usage is at '' @ cpu_percent si @ '' percent'') \<and>
      (\<not> py_in ''cpu'' u \<and> \<not> py_in ''processor'' u \<and>
       (py_in ''memory'' u \<or> py_in ''ram'' u) \<longrightarrow>
         process_command si u = ''Memory available: '' @ memory_available si) \<and>
      (\<not> py_in ''cpu'' u \<and> \<not> py_in ''processor'' u \<and>
       \<not> py_in ''memory'' u \<and> \<not> py_in ''ram'' u \<and> py_in ''disk'' u \<longrightarrow>
         process_command si u = ''Disk space free: '' @ disk_free si) \<and>
      (\<not> py_in ''cpu'' u \<and> \<not> py_in ''processor'' u \<and>
       \<not> py_in ''memory'' u \<and> \<not> py_in ''ram'' u \<and> \<not> py_in ''disk'' u \<longrightarrow>
         process_command si u =
           ''System is running on '' @ platform si @ '' with '' @ cpu_count si @
           '' processors'')) \<and>
   intent (analyze ''tell me about cpu'') = SYSTEM_INFO \<and>
   (\<forall>si. cpu_percent si = ''42.0'' \<longrightarrow>
      process_command si ''tell me about cpu'' = ''Your CPU usage is at 42.0 percent'') \<and>
   intent (analyze ''Tell me about CPU'') = SYSTEM_INFO \<and>
   (\<forall>si. process_command si ''Tell me about CPU'' =
      ''System is running on '' @ platform si @ '' with '' @ cpu_count si @ '' processors'')"
proof -
  have general: "\<forall>si u. intent (analyze u) = SYSTEM_INFO \<longrightarrow>
      ((py_in ''cpu'' u \<or> py_in ''processor'' u) \<longrightarrow>
         process_command si u = ''Your CPU usage is at '' @ cpu_percent si @ '' percent'') \<and>
      (\<not> py_in ''cpu'' u \<and> \<not> py_in ''processor'' u \<and>
       (py_in ''memory'' u \<or> py_in ''ram'' u) \<longrightarrow>
         process_command si u = ''Memory available: '' @ memory_available si) \<and>
      (\<not> py_in ''cpu'' u \<and> \<not> py_in ''processor'' u \<and>
       \<not> py_in ''memory'' u \<and> \<not> py_in ''ram'' u \<and> py_in ''disk'' u \<longrightarrow>
         process_command si u = ''Disk space free: '' @ disk_free si) \<and>
      (\<not> py_in ''cpu'' u \<and> \<not> py_in ''processor'' u \<and>
       \<not> py_in ''memory'' u \<and> \<not> py_in ''ram'' u \<and> \<not> py_in ''disk'' u \<longrightarrow>
         process_command si u =
           ''System is running on '' @ platform si @ '' with '' @ cpu_count si @
           '' processors'')"
    by (simp add: process_command_cases(1) handle_system_info_def)
  have i1: "intent (analyze ''tell me about cpu'') = SYSTEM_INFO"
    by code_simp
  have c1: "py_in ''cpu'' ''tell me about cpu''"
    by code_simp
  have r1: "process_command si ''tell me about cpu'' = ''Your CPU usage is at 42.0 percent''"
    if "cpu_percent si = ''42.0''" for si
    using that by (simp add: process_command_cases(1) [OF i1] handle_system_info_def c1)
  have i2: "intent (analyze ''Tell me about CPU'') = SYSTEM_INFO"
    by code_simp
  have c2: "\<not> py_in ''cpu'' ''Tell me about CPU'' \<and> \<not> py_in ''processor'' ''Tell me about CPU'' \<and>
      \<not> py_in ''memory'' ''Tell me about CPU'' \<and> \<not> py_in ''ram'' ''Tell me about CPU'' \<and>
      \<not> py_in ''disk'' ''Tell me about CPU''"
    by code_simp
  have r2: "process_command si ''Tell me about CPU'' =
      ''System is running on '' @ platform si @ '' with '' @ cpu_count si @ '' processors''"
    for si
    using c2 by (simp add: process_command_cases(1) [OF i2] handle_system_info_def)
  from general i1 r1 i2 r2 show ?thesis by blast
qed

theorem system_info_dispatch_witness:
  "intent (analyze ''show me ram and disk'') = SYSTEM_INFO \<and>
   \<not> py_in ''cpu'' ''show me ram and disk'' \<and> \<not> py_in ''processor'' ''show me ram and disk'' \<and>
   (py_in ''memory'' ''show me ram and disk'' \<or> py_in ''ram'' ''show me ram and disk'') \<and>
   process_command
     \<lparr>cpu_percent = ''42.0'', memory_available = ''8.0 GB'', disk_free = ''100.0 GB'',
      platform = ''Linux'', cpu_count = ''8''\<rparr> ''show me ram and disk'' =
     ''Memory available: 8.0 GB'' \<and>
   process_command
     \<lparr>cpu_percent = ''42.0'', memory_available = ''8.0 GB'', disk_free = ''100.0 GB'',
      platform = ''Linux'', cpu_count = ''8''\<rparr> ''tell me about cpu'' =
     ''Your CPU usage is at 42.0 percent''"
proof -
  let ?si = "\<lparr>cpu_percent = ''42.0'', memory_available = ''8.0 GB'', disk_free = ''100.0 GB'',
      platform = ''Linux'', cpu_count = ''8''\<rparr>"
  have h1: "intent (analyze ''show me ram and disk'') = SYSTEM_INFO"
    by code_simp
  have h2: "\<not> py_in ''cpu'' ''show me ram and disk'' \<and>
      \<not> py_in ''processor'' ''show me ram and disk'' \<and>
      (py_in ''memory'' ''show me ram and disk'' \<or> py_in ''ram'' ''show me ram and disk'')"
    by code_simp
  have h3: "cpu_percent ?si = ''42.0''"
    by simp
  have a: "process_command ?si ''show me ram and disk'' = ''Memory available: '' @ memory_available ?si"
    using system_info_dispatch [THEN conjunct1, rule_format, OF h1, THEN conjunct2, THEN conjunct1,
        rule_format, OF h2, of ?si] .
  have b: "process_command ?si ''tell me about cpu'' = ''Your CPU usage is at 42.0 percent''"
    using system_info_dispatch [THEN conjunct2, THEN conjunct2, THEN conjunct1, rule_format, OF h3] .
  from h1 h2 a b show ?thesis by simp
qed

text \<open>
  C5. For a text of intent CONTROL, \<open>process_command\<close> returns
  \<open>Shutdown command received\<close> if the text as entered contains \<open>shutdown\<close>, otherwise
  \<open>Restart command received\<close> if it contains \<open>restart\<close>, otherwise
  \<open>Control command not recognized\<close>; \<open>shutdown\<close> itself has intent CONTROL and gets the
  first answer. The handler only returns this string. In the loop of text mode the whole
  pass for such a line consists of the prompt, one logger line, speaking the answer and the
  call of \<open>save_interaction\<close>: nothing shuts the machine down or restarts it.
\<close>

theorem control_dispatch:
  "(\<forall>si u. intent (analyze u) = CONTROL \<longrightarrow>
      (py_in ''shutdown'' u \<longrightarrow> process_command si u = ''Shutdown command received'') \<and>
      (\<not> py_in ''shutdown'' u \<and> py_in ''restart'' u \<longrightarrow>
         process_command si u = ''Restart command received'') \<and>
      (\<not> py_in ''shutdown'' u \<and> \<not> py_in ''restart'' u \<longrightarrow>
         process_command si u = ''Control command not recognized'')) \<and>
   intent (analyze ''shutdown'') = CONTROL \<and>
   (\<forall>si. process_command si ''shutdown'' = ''Shutdown command received'') \<and>
   (\<forall>s t ts inp.
      running s \<and> stdin t = Line inp \<and> inp \<noteq> [] \<and> lower (strip inp) \<notin> set exit_words \<and>
      intent (analyze inp) = CONTROL
      \<longrightarrow> text_loop s (t # ts) =
            text_loop
              (save_interaction (now t) (fault t) inp (handle_control inp)
                 (s\<lparr>events := events s @
                      [Prompt ''You: '', Log_info (''User (text): '' @ inp),
                       Speak (handle_control inp)]\<rparr>))
              ts)"
proof -
  have general: "\<forall>si u. intent (analyze u) = CONTROL \<longrightarrow>
      (py_in ''shutdown'' u \<longrightarrow> process_command si u = ''Shutdown command received'') \<and>
      (\<not> py_in ''shutdown'' u \<and> py_in ''restart'' u \<longrightarrow>
         process_command si u = ''Restart command received'') \<and>
      (\<not> py_in ''shutdown'' u \<and> \<not> py_in ''restart'' u \<longrightarrow>
         process_command si u = ''Control command not recognized'')"
    by (simp add: process_command_cases(2) handle_control_def)
  have i: "intent (analyze ''shutdown'') = CONTROL"
    by code_simp
  have c: "py_in ''shutdown'' ''shutdown''"
    by code_simp
  have r: "process_command si ''shutdown'' = ''Shutdown command received''" for si
    using c by (simp add: process_command_cases(2) [OF i] handle_control_def)
  have pass: "text_loop s (t # ts) =
            text_loop
              (save_interaction (now t) (fault t) inp (handle_control inp)
                 (s\<lparr>events := events s @
                      [Prompt ''You: '', Log_info (''User (text): '' @ inp),
                       Speak (handle_control inp)]\<rparr>))
              ts"
    if "running s \<and> stdin t = Line inp \<and> inp \<noteq> [] \<and> lower (strip inp) \<notin> set exit_words \<and>
        intent (analyze inp) = CONTROL"
    for s t ts inp
  proof -
    from that have "process_command (probe t) inp = handle_control inp"
      by (simp add: process_command_cases(2))
    with that show ?thesis
      using text_loop_step [of s t inp ts] by simp
  qed
  from general i r pass show ?thesis by blast
qed

theorem control_dispatch_witness:
  "intent (analyze ''please restart'') = CONTROL \<and>
   \<not> py_in ''shutdown'' ''please restart'' \<and> py_in ''restart'' ''please restart'' \<and>
   process_command sample_info ''please restart'' = ''Restart command received'' \<and>
   running (sample_jarvis Missing) \<and>
   stdin (sample_turn (Line ''please restart'') No_fault) = Line ''please restart'' \<and>
   lower (strip ''please restart'') \<notin> set exit_words \<and>
   text_loop (sample_jarvis Missing) [sample_turn (Line ''please restart'') No_fault] =
     \<lparr>name = ''JARVIS'', running = False,
      log_file = Holds [\<lparr>timestamp = ''2024-05-01T10:00:00'', user_input = ''please restart'',
                         response = ''Restart command received''\<rparr>],
      events = [Prompt ''You: '', Log_info ''User (text): please restart'',
                Speak ''Restart command received'', Prompt ''You: '',
                Speak ''Powering down. Goodbye sir.'', Log_info ''JARVIS stopped'']\<rparr>"
proof -
  have h1: "intent (analyze ''please restart'') = CONTROL"
    by code_simp
  have h2: "\<not> py_in ''shutdown'' ''please restart'' \<and> py_in ''restart'' ''please restart''"
    by code_simp
  have h3: "running (sample_jarvis Missing) \<and>
     stdin (sample_turn (Line ''please restart'') No_fault) = Line ''please restart'' \<and>
     ''please restart'' \<noteq> [] \<and> lower (strip ''please restart'') \<notin> set exit_words \<and>
     intent (analyze ''please restart'') = CONTROL"
    by code_simp
  have a: "process_command sample_info ''please restart'' = ''Restart command received''"
    using control_dispatch [THEN conjunct1, rule_format, OF h1, THEN conjunct2, THEN conjunct1,
        rule_format, OF h2, of sample_info] .
  have b: "text_loop (sample_jarvis Missing) [sample_turn (Line ''please restart'') No_fault] =
      text_loop
        (save_interaction (now (sample_turn (Line ''please restart'') No_fault))
           (fault (sample_turn (Line ''please restart'') No_fault)) ''please restart''
           (handle_control ''please restart'')
           ((sample_jarvis Missing)\<lparr>events := events (sample_jarvis Missing) @
                [Prompt ''You: '', Log_info (''User (text): '' @ ''please restart''),
                 Speak (handle_control ''please restart'')]\<rparr>))
        []"
    using control_dispatch [THEN conjunct2, THEN conjunct2, THEN conjunct2, rule_format, OF h3] .
  have c: "text_loop
        (save_interaction (now (sample_turn (Line ''please restart'') No_fault))
           (fault (sample_turn (Line ''please restart'') No_fault)) ''please restart''
           (handle_control ''please restart'')
           ((sample_jarvis Missing)\<lparr>events := events (sample_jarvis Missing) @
                [Prompt ''You: '', Log_info (''User (text): '' @ ''please restart''),
                 Speak (handle_control ''please restart'')]\<rparr>))
        [] =
     \<lparr>name = ''JARVIS'', running = False,
      log_file = Holds [\<lparr>timestamp = ''2024-05-01T10:00:00'', user_input = ''please restart'',
                         response = ''Restart command received''\<rparr>],
      events = [Prompt ''You: '', Log_info ''User (text): please restart'',
                Speak ''Restart command received'', Prompt ''You: '',
                Speak ''Powering down. Goodbye sir.'', Log_info ''JARVIS stopped'']\<rparr>"
    by code_simp
  from h1 h2 h3 a b c show ?thesis by simp
qed


section \<open>The loop of text mode\<close>

text \<open>
  C6. In text mode, when the line read, stripped and lower-cased, is one of \<open>exit\<close>,
  \<open>quit\<close>, \<open>shutdown\<close>, \<open>power down\<close>, the loop stops: the running flag is cleared and
  the farewell is spoken (and the stop is written to the logger). Nothing else happens for
  that line: the events added are the prompt, the farewell and the logger line, so no
  response was computed or spoken, and the log file is as before. The lines that follow on
  standard input are not read, and once stopped the loop does nothing on any further input.
\<close>

theorem exit_phrase_stops:
  assumes "running s" and "stdin t = Line inp" and "lower (strip inp) \<in> set exit_words"
  shows "set exit_words = {''exit'', ''quit'', ''shutdown'', ''power down''} \<and>
         text_loop s (t # ts) =
           s\<lparr>running := False,
              events := events s @
                [Prompt ''You: '', Speak ''Powering down. Goodbye sir.'',
                 Log_info (name s @ '' stopped'')]\<rparr> \<and>
         log_file (text_loop s (t # ts)) = log_file s \<and>
         \<not> running (text_loop s (t # ts)) \<and>
         (\<forall>more. text_loop (text_loop s (t # ts)) more = text_loop s (t # ts))"
proof -
  have "inp \<noteq> []"
    using assms(3) lower_strip_Nil Nil_not_exit by metis
  then have eq: "text_loop s (t # ts) =
           s\<lparr>running := False,
              events := events s @
                [Prompt ''You: '', Speak ''Powering down. Goodbye sir.'',
                 Log_info (name s @ '' stopped'')]\<rparr>"
    using assms by (simp add: stop_prompt)
  have stopped: "\<not> running (text_loop s (t # ts))"
    unfolding eq by simp
  have "set exit_words = {''exit'', ''quit'', ''shutdown'', ''power down''}"
    by (simp add: exit_words_def)
  moreover have "log_file (text_loop s (t # ts)) = log_file s"
    unfolding eq by simp
  moreover have "\<forall>more. text_loop (text_loop s (t # ts)) more = text_loop s (t # ts)"
    using stopped by (simp add: text_loop_stopped)
  ultimately show ?thesis using eq stopped by blast
qed

theorem exit_phrase_stops_witness:
  "running (sample_jarvis (Holds [])) \<and>
   stdin (sample_turn (Line ''  Power Down '') No_fault) = Line ''  Power Down '' \<and>
   lower (strip ''  Power Down '') \<in> set exit_words \<and>
   text_loop (sample_jarvis (Holds []))
     [sample_turn (Line ''  Power Down '') No_fault, sample_turn (Line ''hello'') No_fault] =
     \<lparr>name = ''JARVIS'', running = False, log_file = Holds [],
      events = [Prompt ''You: '', Speak ''Powering down. Goodbye sir.'',
                Log_info ''JARVIS stopped'']\<rparr>"
proof -
  have h1: "running (sample_jarvis (Holds []))"
    by (simp add: sample_jarvis_def)
  have h2: "stdin (sample_turn (Line ''  Power Down '') No_fault) = Line ''  Power Down ''"
    by (simp add: sample_turn_def)
  have h3: "lower (strip ''  Power Down '') \<in> set exit_words"
    by code_simp
  from exit_phrase_stops [OF h1 h2 h3, of "[sample_turn (Line ''hello'') No_fault]"] h1 h2 h3
  show ?thesis
    by (simp add: sample_jarvis_def)
qed

text \<open>
  C7. In text mode a line that is empty (the string of length 0) is skipped: the pass adds
  the prompt to the events and nothing else, so no response is computed or spoken and the
  log file is not touched, and the loop goes on with the next line. Only the string of
  length 0 counts as empty: a line that is not empty and consists of whitespace only is
  processed like any other, with intent UNKNOWN; its answer is spoken and
  \<open>save_interaction\<close> is called for it.
\<close>

theorem empty_line_reprompts:
  "(\<forall>s t ts. running s \<and> stdin t = Line [] \<longrightarrow>
      text_loop s (t # ts) = text_loop (s\<lparr>events := events s @ [Prompt ''You: '']\<rparr>) ts) \<and>
   (\<forall>s t ts inp.
      running s \<and> stdin t = Line inp \<and> inp \<noteq> [] \<and> (\<forall>c\<in>set inp. isspace c) \<longrightarrow>
      text_loop s (t # ts) =
        text_loop
          (save_interaction (now t) (fault t) inp
             ''I did not understand that. Could you please repeat?''
             (s\<lparr>events := events s @
                  [Prompt ''You: '', Log_info (''User (text): '' @ inp),
                   Speak ''I did not understand that. Could you please repeat?'']\<rparr>))
          ts)"
proof (intro conjI allI impI)
  fix s :: jarvis and t :: turn and ts :: "turn list"
  assume "running s \<and> stdin t = Line []"
  then show "text_loop s (t # ts) = text_loop (s\<lparr>events := events s @ [Prompt ''You: '']\<rparr>) ts"
    by (simp add: prompt_def)
next
  fix s :: jarvis and t :: turn and ts :: "turn list" and inp :: string
  assume h: "running s \<and> stdin t = Line inp \<and> inp \<noteq> [] \<and> (\<forall>c\<in>set inp. isspace c)"
  then have sp: "\<forall>c\<in>set inp. isspace c" by blast
  have "strip inp = []"
    using sp by (rule strip_all_space)
  then have "lower (strip inp) = []"
    by (simp add: lower_def)
  then have not_exit: "lower (strip inp) \<notin> set exit_words"
    using Nil_not_exit by simp
  have "strip (lower inp) = []"
    using sp by (simp add: lower_all_space strip_all_space)
  then have "intent (analyze inp) = UNKNOWN"
    by (simp add: analyze_fields detect_intent_Nil)
  then have "process_command (probe t) inp =
      ''I did not understand that. Could you please repeat?''"
    by (rule process_command_cases(3))
  then show "text_loop s (t # ts) =
        text_loop
          (save_interaction (now t) (fault t) inp
             ''I did not understand that. Could you please repeat?''
             (s\<lparr>events := events s @
                  [Prompt ''You: '', Log_info (''User (text): '' @ inp),
                   Speak ''I did not understand that. Could you please repeat?'']\<rparr>))
          ts"
    using text_loop_step [of s t inp ts] h not_exit by simp
qed

theorem empty_line_reprompts_witness:
  "running (sample_jarvis Missing) \<and> stdin (sample_turn (Line []) No_fault) = Line [] \<and>
   text_loop (sample_jarvis Missing) [sample_turn (Line []) No_fault] =
     \<lparr>name = ''JARVIS'', running = False, log_file = Missing,
      events = [Prompt ''You: '', Prompt ''You: '', Speak ''Powering down. Goodbye sir.'',
                Log_info ''JARVIS stopped'']\<rparr> \<and>
   ''  '' \<noteq> [] \<and> list_all isspace ''  '' \<and>
   stdin (sample_turn (Line ''  '') No_fault) = Line ''  '' \<and>
   text_loop (sample_jarvis Missing) [sample_turn (Line ''  '') No_fault] =
     \<lparr>name = ''JARVIS'', running = False,
      log_file = Holds [\<lparr>timestamp = ''2024-05-01T10:00:00'', user_input = ''  '',
                         response = ''I did not understand that. Could you please repeat?''\<rparr>],
      events = [Prompt ''You: '', Log_info ''User (text):   '',
                Speak ''I did not understand that. Could you please repeat?'',
                Prompt ''You: '', Speak ''Powering down. Goodbye sir.'',
                Log_info ''JARVIS stopped'']\<rparr>"
proof -
  have h1: "running (sample_jarvis Missing) \<and> stdin (sample_turn (Line []) No_fault) = Line []"
    by (simp add: sample_jarvis_def sample_turn_def)
  have h2: "running (sample_jarvis Missing) \<and>
      stdin (sample_turn (Line ''  '') No_fault) = Line ''  '' \<and>
      ''  '' \<noteq> [] \<and> (\<forall>c\<in>set ''  ''. isspace c)"
    by code_simp
  have a: "text_loop (sample_jarvis Missing) [sample_turn (Line []) No_fault] =
      text_loop ((sample_jarvis Missing)\<lparr>events :=
        events (sample_jarvis Missing) @ [Prompt ''You: '']\<rparr>) []"
    using empty_line_reprompts [THEN conjunct1, rule_format, OF h1] .
  have a': "text_loop ((sample_jarvis Missing)\<lparr>events :=
        events (sample_jarvis Missing) @ [Prompt ''You: '']\<rparr>) [] =
     \<lparr>name = ''JARVIS'', running = False, log_file = Missing,
      events = [Prompt ''You: '', Prompt ''You: '', Speak ''Powering down. Goodbye sir.'',
                Log_info ''JARVIS stopped'']\<rparr>"
    by code_simp
  have b: "text_loop (sample_jarvis Missing) [sample_turn (Line ''  '') No_fault] =
      text_loop
        (save_interaction (now (sample_turn (Line ''  '') No_fault))
           (fault (sample_turn (Line ''  '') No_fault)) ''  ''
           ''I did not understand that. Could you please repeat?''
           ((sample_jarvis Missing)\<lparr>events := events (sample_jarvis Missing) @
                [Prompt ''You: '', Log_info (''User (text): '' @ ''  ''),
                 Speak ''I did not understand that. Could you please repeat?'']\<rparr>))
        []"
    using empty_line_reprompts [THEN conjunct2, rule_format, OF h2] .
  have b': "text_loop
        (save_interaction (now (sample_turn (Line ''  '') No_fault))
           (fault (sample_turn (Line ''  '') No_fault)) ''  ''
           ''I did not understand that. Could you please repeat?''
           ((sample_jarvis Missing)\<lparr>events := events (sample_jarvis Missing) @
                [Prompt ''You: '', Log_info (''User (text): '' @ ''  ''),
                 Speak ''I did not understand that. Could you please repeat?'']\<rparr>))
        [] =
     \<lparr>name = ''JARVIS'', running = False,
      log_file = Holds [\<lparr>timestamp = ''2024-05-01T10:00:00'', user_input = ''  '',
                         response = ''I did not understand that. Could you please repeat?''\<rparr>],
      events = [Prompt ''You: '', Log_info ''User (text):   '',
                Speak ''I did not understand that. Could you please repeat?'',
                Prompt ''You: '', Speak ''Powering down. Goodbye sir.'',
                Log_info ''JARVIS stopped'']\<rparr>"
    by code_simp
  have h3: "list_all isspace ''  ''"
    by code_simp
  from h1 h2 h3 a a' b b' show ?thesis by simp
qed


section \<open>The interaction log\<close>

text \<open>
  C8. When the log can be read and holds the records \<open>old\<close> (none, if the file is missing
  or holds the empty list), and \<open>save_interaction\<close> is called N times with no fault of the
  file system, then reading the log gives \<open>old\<close> followed by exactly the N records of the
  calls, in the order of the calls, each with the \<open>user_input\<close> and \<open>response\<close> strings
  passed to its call (and the clock value of its call); nothing is written to the logger.
  From a missing or empty log the result is exactly the N records.
\<close>

theorem log_round_trip:
  assumes "load_conversations No_fault (log_file s) = Inr old"
      and "\<forall>(stamp, f, inp, resp) \<in> set calls. f = No_fault"
  shows "load_conversations No_fault (log_file (save_all calls s)) =
           Inr (old @ map (\<lambda>(stamp, f, inp, resp).
                  \<lparr>timestamp = stamp, user_input = inp, response = resp\<rparr>) calls) \<and>
         events (save_all calls s) = events s"
proof (cases "calls = []")
  case True
  then show ?thesis using assms(1) by simp
next
  case False
  then show ?thesis
    by (simp add: save_all_ok [OF assms] load_Holds)
qed

theorem log_round_trip_witness:
  "load_conversations No_fault (log_file (sample_jarvis Missing)) = Inr [] \<and>
   list_all (\<lambda>(stamp, f, inp, resp). f = No_fault)
     [(''2024-05-01T10:00:00'', No_fault, ''hello'', ''Good to see you.''),
      (''2024-05-01T10:00:09'', No_fault, ''Why?'', ''I will search'')] \<and>
   load_conversations No_fault
     (log_file
       (save_all [(''2024-05-01T10:00:00'', No_fault, ''hello'', ''Good to see you.''),
                  (''2024-05-01T10:00:09'', No_fault, ''Why?'', ''I will search'')]
          (sample_jarvis Missing))) =
     Inr [\<lparr>timestamp = ''2024-05-01T10:00:00'', user_input = ''hello'',
            response = ''Good to see you.''\<rparr>,
          \<lparr>timestamp = ''2024-05-01T10:00:09'', user_input = ''Why?'',
            response = ''I will search''\<rparr>]"
proof -
  have h1: "load_conversations No_fault (log_file (sample_jarvis Missing)) = Inr []"
    by (simp add: load_conversations_def sample_jarvis_def)
  have h2: "\<forall>(stamp, f, inp, resp) \<in>
      set [(''2024-05-01T10:00:00'', No_fault, ''hello'', ''Good to see you.''),
           (''2024-05-01T10:00:09'', No_fault, ''Why?'', ''I will search'')]. f = No_fault"
    by simp
  from log_round_trip [OF h1 h2] h1 h2 show ?thesis
    by simp
qed

text \<open>
  C9. When the \<open>try\<close> block of \<open>save_interaction\<close> raises the exception \<open>e\<close>, the call
  still returns: it writes \<open>e\<close> to the logger as an error and changes nothing else of the
  assistant (name and running flag stay). The record is not saved: the file is as before
  the call, or, when \<open>json.dump\<close> failed after the file had been truncated, it cannot be
  loaded any more. In the loop of text mode the pass ends normally, with the running flag
  set, and the loop goes on with the next line. A failure of \<open>open(log_file, 'w')\<close> or of
  \<open>json.dump\<close> always makes the block raise.
\<close>

theorem save_failure_recovered:
  "(\<forall>stamp f inp resp s e.
      snd (save_try stamp f inp resp (log_file s)) = Some e \<longrightarrow>
      events (save_interaction stamp f inp resp s) = events s @ [Log_error e] \<and>
      running (save_interaction stamp f inp resp s) = running s \<and>
      name (save_interaction stamp f inp resp s) = name s \<and>
      (log_file (save_interaction stamp f inp resp s) = log_file s \<or>
       log_file (save_interaction stamp f inp resp s) = Unloadable)) \<and>
   (\<forall>stamp f inp resp lf.
      f = Open_write_fault \<or> f = Dump_fault \<longrightarrow> snd (save_try stamp f inp resp lf) \<noteq> None) \<and>
   (\<forall>s t ts inp e.
      running s \<and> stdin t = Line inp \<and> inp \<noteq> [] \<and> lower (strip inp) \<notin> set exit_words \<and>
      snd (save_try (now t) (fault t) inp (process_command (probe t) inp) (log_file s)) = Some e
      \<longrightarrow>
      text_loop s (t # ts) =
        text_loop
          (s\<lparr>log_file :=
               fst (save_try (now t) (fault t) inp (process_command (probe t) inp) (log_file s)),
             events := events s @
               [Prompt ''You: '', Log_info (''User (text): '' @ inp),
                Speak (process_command (probe t) inp), Log_error e]\<rparr>)
          ts \<and>
      running
        (s\<lparr>log_file :=
             fst (save_try (now t) (fault t) inp (process_command (probe t) inp) (log_file s)),
           events := events s @
             [Prompt ''You: '', Log_info (''User (text): '' @ inp),
              Speak (process_command (probe t) inp), Log_error e]\<rparr>))"
proof (intro conjI allI impI)
  fix stamp :: string and f :: io_fault and inp resp :: string and s :: jarvis
    and e :: save_exception
  assume h: "snd (save_try stamp f inp resp (log_file s)) = Some e"
  note eq = save_interaction_cases(2) [OF h]
  show "events (save_interaction stamp f inp resp s) = events s @ [Log_error e]"
    unfolding eq by simp
  show "running (save_interaction stamp f inp resp s) = running s"
    unfolding eq by simp
  show "name (save_interaction stamp f inp resp s) = name s"
    unfolding eq by simp
  show "log_file (save_interaction stamp f inp resp s) = log_file s \<or>
       log_file (save_interaction stamp f inp resp s) = Unloadable"
    unfolding eq using save_try_raise [OF h] by simp
next
  fix stamp :: string and f :: io_fault and inp resp :: string and lf :: log_file
  assume "f = Open_write_fault \<or> f = Dump_fault"
  then show "snd (save_try stamp f inp resp lf) \<noteq> None"
    by (auto simp: save_try_def Let_def load_conversations_def
        split: sum.splits log_file.splits)
next
  fix s :: jarvis and t :: turn and ts :: "turn list" and inp :: string
    and e :: save_exception
  assume h: "running s \<and> stdin t = Line inp \<and> inp \<noteq> [] \<and>
      lower (strip inp) \<notin> set exit_words \<and>
      snd (save_try (now t) (fault t) inp (process_command (probe t) inp) (log_file s)) = Some e"
  let ?resp = "process_command (probe t) inp"
  let ?s1 = "s\<lparr>events := events s @
      [Prompt ''You: '', Log_info (''User (text): '' @ inp), Speak ?resp]\<rparr>"
  have "snd (save_try (now t) (fault t) inp ?resp (log_file ?s1)) = Some e"
    using h by simp
  then have "save_interaction (now t) (fault t) inp ?resp ?s1 =
      ?s1\<lparr>log_file := fst (save_try (now t) (fault t) inp ?resp (log_file ?s1)),
          events := events ?s1 @ [Log_error e]\<rparr>"
    by (rule save_interaction_cases(2))
  then have "save_interaction (now t) (fault t) inp ?resp ?s1 =
      s\<lparr>log_file := fst (save_try (now t) (fault t) inp ?resp (log_file s)),
        events := events s @
          [Prompt ''You: '', Log_info (''User (text): '' @ inp), Speak ?resp, Log_error e]\<rparr>"
    by simp
  then show "text_loop s (t # ts) =
        text_loop
          (s\<lparr>log_file := fst (save_try (now t) (fault t) inp ?resp (log_file s)),
             events := events s @
               [Prompt ''You: '', Log_info (''User (text): '' @ inp), Speak ?resp,
                Log_error e]\<rparr>)
          ts"
    using text_loop_step [of s t inp ts] h by simp
  show "running
        (s\<lparr>log_file := fst (save_try (now t) (fault t) inp ?resp (log_file s)),
           events := events s @
             [Prompt ''You: '', Log_info (''User (text): '' @ inp), Speak ?resp,
              Log_error e]\<rparr>)"
    using h by simp
qed

theorem save_failure_recovered_witness:
  "running (sample_jarvis (Holds [])) \<and>
   stdin (sample_turn (Line ''why'') Dump_fault) = Line ''why'' \<and>
   lower (strip ''why'') \<notin> set exit_words \<and>
   snd (save_try (now (sample_turn (Line ''why'') Dump_fault))
          (fault (sample_turn (Line ''why'') Dump_fault)) ''why''
          (process_command (probe (sample_turn (Line ''why'') Dump_fault)) ''why'')
          (log_file (sample_jarvis (Holds [])))) = Some Dump_raised \<and>
   text_loop (sample_jarvis (Holds []))
     [sample_turn (Line ''why'') Dump_fault, sample_turn (Line ''hello'') No_fault] =
     \<lparr>name = ''JARVIS'', running = False, log_file = Unloadable,
      events = [Prompt ''You: '', Log_info ''User (text): why'',
                Speak ''I will search for that information for you'', Log_error Dump_raised,
                Prompt ''You: '', Log_info ''User (text): hello'',
                Speak ''Good to see you. How can I assist you today?'', Log_error Load_raised,
                Prompt ''You: '', Speak ''Powering down. Goodbye sir.'',
                Log_info ''JARVIS stopped'']\<rparr>"
proof -
  let ?t = "sample_turn (Line ''why'') Dump_fault"
  let ?s = "sample_jarvis (Holds [])"
  have h: "running ?s \<and> stdin ?t = Line ''why'' \<and> ''why'' \<noteq> [] \<and>
      lower (strip ''why'') \<notin> set exit_words \<and>
      snd (save_try (now ?t) (fault ?t) ''why'' (process_command (probe ?t) ''why'')
            (log_file ?s)) = Some Dump_raised"
    by code_simp
  have a: "text_loop ?s [?t, sample_turn (Line ''hello'') No_fault] =
      text_loop
        (?s\<lparr>log_file :=
              fst (save_try (now ?t) (fault ?t) ''why'' (process_command (probe ?t) ''why'')
                    (log_file ?s)),
            events := events ?s @
              [Prompt ''You: '', Log_info (''User (text): '' @ ''why''),
               Speak (process_command (probe ?t) ''why''), Log_error Dump_raised]\<rparr>)
        [sample_turn (Line ''hello'') No_fault]"
    using save_failure_recovered [THEN conjunct2, THEN conjunct2, rule_format, OF h,
        THEN conjunct1] .
  have b: "text_loop
        (?s\<lparr>log_file :=
              fst (save_try (now ?t) (fault ?t) ''why'' (process_command (probe ?t) ''why'')
                    (log_file ?s)),
            events := events ?s @
              [Prompt ''You: '', Log_info (''User (text): '' @ ''why''),
               Speak (process_command (probe ?t) ''why''), Log_error Dump_raised]\<rparr>)
        [sample_turn (Line ''hello'') No_fault] =
     \<lparr>name = ''JARVIS'', running = False, log_file = Unloadable,
      events = [Prompt ''You: '', Log_info ''User (text): why'',
                Speak ''I will search for that information for you'', Log_error Dump_raised,
                Prompt ''You: '', Log_info ''User (text): hello'',
                Speak ''Good to see you. How can I assist you today?'', Log_error Load_raised,
                Prompt ''You: '', Speak ''Powering down. Goodbye sir.'',
                Log_info ''JARVIS stopped'']\<rparr>"
    by code_simp
  from h a b show ?thesis by simp
qed

end
